theory Spec2Isabelle
  imports Main
begin

section \<open>Strings, characters and the regular expressions of formatting.ts\<close>

text \<open>
  A JavaScript string is a sequence of UTF-16 code units. The model is \<open>string\<close>: one
  \<open>char\<close> per code unit, for the code units below 256 (ASCII and Latin-1), so that
  \<open>length\<close> is the \<open>.length\<close> of the source. On these code units the class \<open>\s\<close> of a
  JavaScript regular expression is tab, line feed, vertical tab, form feed, carriage
  return, space and no-break space; \<open>String.prototype.trim\<close> removes the same characters.
  Every regular expression of the source is modelled by a scanner that finds the same
  leftmost matches in the same order.
\<close>

abbreviation dquote :: char where "dquote \<equiv> CHR 0x22"
abbreviation squote :: char where "squote \<equiv> CHR 0x27"
abbreviation backslash :: char where "backslash \<equiv> CHR 0x5C"
abbreviation tabch :: char where "tabch \<equiv> CHR 0x09"
abbreviation lf :: char where "lf \<equiv> CHR 0x0A"
abbreviation cr :: char where "cr \<equiv> CHR 0x0D"

definition isSpace :: "char \<Rightarrow> bool" where
  \<comment> \<open>the class \<open>\s\<close>\<close>
  "isSpace c = (c = tabch \<or> c = lf \<or> c = CHR 0x0B \<or> c = CHR 0x0C \<or> c = cr
                \<or> c = CHR '' '' \<or> c = CHR 0xA0)"

definition isSpTab :: "char \<Rightarrow> bool" where
  \<comment> \<open>the class \<open>[ \t]\<close>\<close>
  "isSpTab c = (c = CHR '' '' \<or> c = tabch)"

definition isQuote :: "char \<Rightarrow> bool" where
  "isQuote c = (c = dquote \<or> c = squote)"

definition isWordChar :: "char \<Rightarrow> bool" where
  \<comment> \<open>the class \<open>\w\<close>, which decides the word boundary \<open>\b\<close>\<close>
  "isWordChar c = (let n = (of_char c :: nat) in
      (48 \<le> n \<and> n \<le> 57) \<or> (65 \<le> n \<and> n \<le> 90) \<or> (97 \<le> n \<and> n \<le> 122) \<or> n = 95)"

definition isLineTerminator :: "char \<Rightarrow> bool" where
  \<comment> \<open>what \<open>.\<close> does not match\<close>
  "isLineTerminator c = (c = lf \<or> c = cr)"

fun startsWith :: "string \<Rightarrow> string \<Rightarrow> bool" where
  "startsWith s [] = True"
| "startsWith [] (p # ps) = False"
| "startsWith (c # s) (p # ps) = (c = p \<and> startsWith s ps)"

definition endsWithNewline :: "string \<Rightarrow> bool" where
  \<comment> \<open>\<open>text.endsWith("\n")\<close>\<close>
  "endsWithNewline s = (case rev s of [] \<Rightarrow> False | c # _ \<Rightarrow> c = lf)"

definition includesChar :: "string \<Rightarrow> char \<Rightarrow> bool" where
  \<comment> \<open>\<open>s.includes(c)\<close> for a one-character needle\<close>
  "includesChar s c = (c \<in> set s)"

definition trimEndSpTab :: "string \<Rightarrow> string" where
  \<comment> \<open>\<open>s.replace(/[ \t]+$/g, "")\<close>\<close>
  "trimEndSpTab s = rev (dropWhile isSpTab (rev s))"

definition trimStartWs :: "string \<Rightarrow> string" where
  \<comment> \<open>\<open>s.replace(/^\s+/, "")\<close>\<close>
  "trimStartWs s = dropWhile isSpace s"

definition trimStartSpTab :: "string \<Rightarrow> string" where
  \<comment> \<open>\<open>s.replace(/^[ \t]+/, "")\<close>\<close>
  "trimStartSpTab s = dropWhile isSpTab s"

definition trim :: "string \<Rightarrow> string" where
  \<comment> \<open>\<open>s.trim()\<close>\<close>
  "trim s = rev (dropWhile isSpace (rev (dropWhile isSpace s)))"

definition isBlank :: "string \<Rightarrow> bool" where
  \<comment> \<open>\<open>/^\s*$/.test(l)\<close>\<close>
  "isBlank l = list_all isSpace l"

definition repeat :: "string \<Rightarrow> nat \<Rightarrow> string" where
  \<comment> \<open>\<open>s.repeat(n)\<close> for a count that is a natural number\<close>
  "repeat s n = concat (replicate n s)"

subsection \<open>visualWidth\<close>

text \<open>
  \<open>for (const ch of s) { if (ch === "\t") w += tabSize - (w % tabSize); else w += 1; }\<close>
  For \<open>tabSize = 0\<close> JavaScript computes \<open>NaN\<close> at the first tab; the one caller with a
  variable tab size, \<open>normalizeIndent\<close>, treats that case apart, and the other callers
  pass the constant 2.
\<close>

fun visualWidthFrom :: "nat \<Rightarrow> string \<Rightarrow> nat \<Rightarrow> nat" where
  "visualWidthFrom w [] tabSz = w"
| "visualWidthFrom w (ch # s) tabSz =
     visualWidthFrom (if ch = tabch then w + (tabSz - w mod tabSz) else w + 1) s tabSz"

definition visualWidth :: "string \<Rightarrow> nat \<Rightarrow> nat" where
  "visualWidth s tabSz = visualWidthFrom 0 s tabSz"

section \<open>String-aware scanning\<close>

subsection \<open>stripStrings\<close>

text \<open>
  The scanner state \<open>inStr\<close> is \<open>None\<close> in code and \<open>Some q\<close> inside a string opened by
  the quote \<open>q\<close>. Inside a string a backslash skips the next character.
\<close>

fun stripStringsFrom :: "char option \<Rightarrow> string \<Rightarrow> string" where
  "stripStringsFrom inStr [] = []"
| "stripStringsFrom (Some q) (ch # s) =
     (if ch = backslash then (case s of [] \<Rightarrow> [] | c2 # s' \<Rightarrow> stripStringsFrom (Some q) s')
      else if ch = q then stripStringsFrom None s
      else stripStringsFrom (Some q) s)"
| "stripStringsFrom None (ch # s) =
     (if isQuote ch then stripStringsFrom (Some ch) s
      else ch # stripStringsFrom None s)"

definition stripStrings :: "string \<Rightarrow> string" where
  "stripStrings s = stripStringsFrom None s"

subsection \<open>rewriteOutsideStrings\<close>

text \<open>
  Outside a string the loop takes the chunk up to the next quote and appends \<open>fn chunk\<close>;
  inside a string every character is copied, an escaped character with its backslash.
\<close>

function rewriteOutsideFrom :: "(string \<Rightarrow> string) \<Rightarrow> char option \<Rightarrow> string \<Rightarrow> string" where
  "rewriteOutsideFrom fn inStr [] = []"
| "rewriteOutsideFrom fn (Some q) (ch # s) =
     (if ch = backslash then
        (case s of [] \<Rightarrow> [ch] | c2 # s' \<Rightarrow> ch # c2 # rewriteOutsideFrom fn (Some q) s')
      else if ch = q then ch # rewriteOutsideFrom fn None s
      else ch # rewriteOutsideFrom fn (Some q) s)"
| "rewriteOutsideFrom fn None (ch # s) =
     (if isQuote ch then ch # rewriteOutsideFrom fn (Some ch) s
      else fn (ch # takeWhile (\<lambda>c. \<not> isQuote c) s)
           @ rewriteOutsideFrom fn None (dropWhile (\<lambda>c. \<not> isQuote c) s))"
  by pat_completeness auto
termination
  by (relation "measure (\<lambda>(fn, inStr, s). length s)")
     (auto simp: length_dropWhile_le le_imp_less_Suc)

definition rewriteOutsideStrings :: "string \<Rightarrow> (string \<Rightarrow> string) \<Rightarrow> string" where
  "rewriteOutsideStrings line fn = rewriteOutsideFrom fn None line"

subsection \<open>rewriteStrings\<close>

text \<open>
  The two nested loops are one scanner: in state \<open>None\<close> it copies code, in state
  \<open>Some (quote, content)\<close> it reads the content of a literal. \<open>fn content quote\<close> is
  appended at the closing quote, or at the end of the line when the literal is not
  closed. A backslash that is the last character of the line is appended to the content
  twice, once by the escape branch and once by the fall-through.
\<close>

fun rewriteStringsFrom ::
  "(string \<Rightarrow> char \<Rightarrow> string) \<Rightarrow> (char \<times> string) option \<Rightarrow> string \<Rightarrow> string" where
  "rewriteStringsFrom fn None [] = []"
| "rewriteStringsFrom fn None (ch # s) =
     (if \<not> isQuote ch then ch # rewriteStringsFrom fn None s
      else rewriteStringsFrom fn (Some (ch, [])) s)"
| "rewriteStringsFrom fn (Some (quote, content)) [] = fn content quote"
| "rewriteStringsFrom fn (Some (quote, content)) (c # s) =
     (if c = backslash then
        (case s of
           [] \<Rightarrow> fn (content @ [c, c]) quote
         | c2 # s' \<Rightarrow> rewriteStringsFrom fn (Some (quote, content @ [c, c2])) s')
      else if c = quote then fn content quote @ rewriteStringsFrom fn None s
      else rewriteStringsFrom fn (Some (quote, content @ [c])) s)"

definition rewriteStrings :: "string \<Rightarrow> (string \<Rightarrow> char \<Rightarrow> string) \<Rightarrow> string" where
  "rewriteStrings line fn = rewriteStringsFrom fn None line"

section \<open>Pass 1: indentation, spacing, quotes, braces\<close>

subsection \<open>Operator spacing\<close>

text \<open>
  The alternation of the regular expression, in the order of the array \<open>ops\<close>: the
  first alternative that matches wins.
\<close>

definition ops :: "string list" where
  "ops = [''+='', ''-='', ''*='', ''/='', ''%='', ''<<='', ''>>='', ''&='', ''^='', ''|='',
          ''==='', ''!=='', ''=='', ''!='', ''<='', ''>='', ''&&'', ''||'', ''<<'', ''>>'',
          ''+'', ''-'', ''*'', ''/'', ''%'', ''<'', ''>'', ''='', ''&'', ''|'', ''^'']"

definition matchOp :: "string \<Rightarrow> string option" where
  "matchOp s = List.find (startsWith s) ops"

text \<open>
  \<open>chunk.replace(rx, " $1 ")\<close> with \<open>rx = /\s*(op1|op2|...)\s*/g\<close>. A match starts at
  the current position when an operator follows the white space there; the greedy
  \<open>\s*\<close> after the operator takes all the white space that follows. No operator starts
  with white space, so giving back white space never helps a match.
\<close>

lemma matchOp_nonempty: "matchOp s = Some op \<Longrightarrow> 0 < length op"
  by (auto simp: matchOp_def ops_def split: if_splits)

function replaceOps :: "string \<Rightarrow> string" where
  "replaceOps [] = []"
| "replaceOps (c # s) =
     (case matchOp (dropWhile isSpace (c # s)) of
        None \<Rightarrow> c # replaceOps s
      | Some op \<Rightarrow>
          '' '' @ op @ '' ''
          @ replaceOps (dropWhile isSpace (drop (length op) (dropWhile isSpace (c # s)))))"
  by pat_completeness auto
termination
proof (relation "measure length", goal_cases)
  case 1
  show ?case by simp
next
  case (2 c s)
  show ?case by simp
next
  case (3 c s op)
  have a: "length (dropWhile isSpace (drop (length op) (dropWhile isSpace (c # s))))
           \<le> length (dropWhile isSpace (c # s)) - length op"
    using length_dropWhile_le [of isSpace "drop (length op) (dropWhile isSpace (c # s))"]
    by simp
  have b: "length (dropWhile isSpace (c # s)) \<le> length (c # s)"
    by (rule length_dropWhile_le)
  have c: "0 < length (c # s)" by simp
  from 3 have "0 < length op" by (rule matchOp_nonempty)
  with a b c have "length (dropWhile isSpace (drop (length op) (dropWhile isSpace (c # s))))
                 < length (c # s)"
    by linarith
  then show ?case unfolding in_measure .
qed

fun collapseSpaces :: "string \<Rightarrow> string" where
  \<comment> \<open>\<open>s.replace(/ {2,}/g, " ")\<close>\<close>
  "collapseSpaces [] = []"
| "collapseSpaces [c] = [c]"
| "collapseSpaces (c # d # s) =
     (if c = CHR '' '' \<and> d = CHR '' '' then collapseSpaces (d # s)
      else c # collapseSpaces (d # s))"

definition ensureSpacesAroundOpsOutsideStrings :: "string \<Rightarrow> string" where
  "ensureSpacesAroundOpsOutsideStrings line =
     rewriteOutsideStrings line (\<lambda>chunk. collapseSpaces (replaceOps chunk))"

subsection \<open>Comma spacing\<close>

function replaceCommas :: "string \<Rightarrow> string" where
  \<comment> \<open>\<open>s.replace(/\s*,\s*/g, ", ")\<close>\<close>
  "replaceCommas [] = []"
| "replaceCommas (c # s) =
     (case dropWhile isSpace (c # s) of
        [] \<Rightarrow> c # replaceCommas s
      | d # r \<Rightarrow> if d = CHR '','' then '', '' @ replaceCommas (dropWhile isSpace r)
                 else c # replaceCommas s)"
  by pat_completeness auto
termination
proof (relation "measure length", goal_cases)
  case 1
  show ?case by simp
next
  case (2 c s)
  show ?case by simp
next
  case (3 c s d r)
  have "length (d # r) \<le> length (c # s)"
    using length_dropWhile_le [of isSpace "c # s"] 3 by simp
  moreover have "length (dropWhile isSpace r) \<le> length r"
    by (rule length_dropWhile_le)
  ultimately show ?case by simp
next
  case (4 c s d r)
  show ?case by simp
qed

definition isCommaCloser :: "char \<Rightarrow> bool" where
  \<comment> \<open>the class \<open>[,\]\)}]\<close>\<close>
  "isCommaCloser c = (c = CHR '','' \<or> c = CHR '']'' \<or> c = CHR '')'' \<or> c = CHR ''}'')"

function tightenCommas :: "string \<Rightarrow> string" where
  \<comment> \<open>\<open>s.replace(/, +([,\]\)}])/g, ",$1")\<close>\<close>
  "tightenCommas [] = []"
| "tightenCommas (c # s) =
     (if c = CHR '','' \<and> startsWith s '' '' then
        (case dropWhile (\<lambda>x. x = CHR '' '') s of
           [] \<Rightarrow> c # tightenCommas s
         | d # r \<Rightarrow> if isCommaCloser d then c # d # tightenCommas r
                    else c # tightenCommas s)
      else c # tightenCommas s)"
  by pat_completeness auto
termination
proof (relation "measure length", goal_cases)
  case 1
  show ?case by simp
next
  case (2 c s)
  show ?case by simp
next
  case (3 c s d r)
  have "length (d # r) \<le> length s"
    using length_dropWhile_le [of "\<lambda>x. x = CHR '' ''" s] 3 by simp
  then show ?case by simp
next
  case (4 c s d r)
  show ?case by simp
next
  case (5 c s)
  show ?case by simp
qed

definition ensureSpaceAfterCommasOutsideStrings :: "string \<Rightarrow> string" where
  "ensureSpaceAfterCommasOutsideStrings line =
     rewriteOutsideStrings line (\<lambda>chunk. tightenCommas (replaceCommas chunk))"

subsection \<open>Colon spacing\<close>

datatype colon_mode = ColonNone | ColonLeft | ColonRight | ColonBoth

function replaceColons :: "string \<Rightarrow> string \<Rightarrow> string" where
  \<comment> \<open>\<open>s.replace(/\s*:\s*/g, rep)\<close>\<close>
  "replaceColons rep [] = []"
| "replaceColons rep (c # s) =
     (case dropWhile isSpace (c # s) of
        [] \<Rightarrow> c # replaceColons rep s
      | d # r \<Rightarrow> if d = CHR '':'' then rep @ replaceColons rep (dropWhile isSpace r)
                 else c # replaceColons rep s)"
  by pat_completeness auto
termination
proof (relation "measure (\<lambda>(rep, s). length s)", goal_cases)
  case 1
  show ?case by simp
next
  case (2 rep c s)
  show ?case by simp
next
  case (3 rep c s d r)
  have "length (d # r) \<le> length (c # s)"
    using length_dropWhile_le [of isSpace "c # s"] 3 by simp
  moreover have "length (dropWhile isSpace r) \<le> length r"
    by (rule length_dropWhile_le)
  ultimately show ?case by simp
next
  case (4 rep c s d r)
  show ?case by simp
qed

fun ensureSpaceAroundColonOutsideStrings :: "string \<Rightarrow> colon_mode \<Rightarrow> string" where
  "ensureSpaceAroundColonOutsideStrings line ColonLeft =
     rewriteOutsideStrings line (replaceColons '' :'')"
| "ensureSpaceAroundColonOutsideStrings line ColonBoth =
     rewriteOutsideStrings line (replaceColons '' : '')"
| "ensureSpaceAroundColonOutsideStrings line mode =
     rewriteOutsideStrings line (replaceColons '': '')"

subsection \<open>Quote normalisation\<close>

datatype quote_mode = QuotePreserve | QuoteDouble | QuoteSingle

definition escapeQuote :: "char \<Rightarrow> string \<Rightarrow> string" where
  \<comment> \<open>\<open>content.replace(/"/g, "\\\"")\<close>, and the same for the single quote\<close>
  "escapeQuote q content = concat (map (\<lambda>c. if c = q then [backslash, q] else [c]) content)"

definition normalizeQuote :: "quote_mode \<Rightarrow> string \<Rightarrow> char \<Rightarrow> string" where
  \<comment> \<open>the callback that \<open>normalizeQuotesInLine\<close> hands to \<open>rewriteStrings\<close>\<close>
  "normalizeQuote target content quote =
     (if target = QuoteDouble \<and> quote = squote \<and> \<not> includesChar content dquote
        then dquote # escapeQuote dquote content @ [dquote]
      else if target = QuoteSingle \<and> quote = dquote \<and> \<not> includesChar content squote
        then squote # escapeQuote squote content @ [squote]
      else quote # content @ [quote])"

definition normalizeQuotesInLine :: "string \<Rightarrow> quote_mode \<Rightarrow> string" where
  "normalizeQuotesInLine line target = rewriteStrings line (normalizeQuote target)"

subsection \<open>Brace style and else placement\<close>

datatype brace_style = Attach | Break

definition braceTail :: "string \<Rightarrow> bool" where
  \<comment> \<open>the rest of \<open>/\)\s*\{\s*$/\<close> after the closing parenthesis\<close>
  "braceTail r = (case dropWhile isSpace r of
                    [] \<Rightarrow> False
                  | d # r' \<Rightarrow> d = CHR ''{'' \<and> list_all isSpace r')"

fun applyBraceStyle :: "string \<Rightarrow> brace_style \<Rightarrow> string" where
  \<comment> \<open>\<open>line.replace(/\)\s*\{\s*$/, ...)\<close>: the leftmost match, once\<close>
  "applyBraceStyle [] style = []"
| "applyBraceStyle (c # s) style =
     (if c = CHR '')'' \<and> braceTail s
        then (case style of Attach \<Rightarrow> '') {'' | Break \<Rightarrow> '')\<newline>{'')
      else c # applyBraceStyle s style)"

definition elseAhead :: "string \<Rightarrow> bool" where
  \<comment> \<open>\<open>\s*else\b\<close> at the start of the string\<close>
  "elseAhead s =
     (let r = dropWhile isSpace s in
      startsWith r ''else'' \<and> (case drop 4 r of [] \<Rightarrow> True | d # _ \<Rightarrow> \<not> isWordChar d))"

fun hasBraceElse :: "string \<Rightarrow> bool" where
  \<comment> \<open>\<open>/}\s*else\b/.test(line)\<close>\<close>
  "hasBraceElse [] = False"
| "hasBraceElse (c # s) = ((c = CHR ''}'' \<and> elseAhead s) \<or> hasBraceElse s)"

function splitBraceElse :: "string \<Rightarrow> string" where
  \<comment> \<open>\<open>line.replace(/}\s*else\b/g, "}\nelse")\<close>\<close>
  "splitBraceElse [] = []"
| "splitBraceElse (c # s) =
     (if c = CHR ''}'' \<and> elseAhead s
        then ''}\<newline>else'' @ splitBraceElse (drop 4 (dropWhile isSpace s))
      else c # splitBraceElse s)"
  by pat_completeness auto
termination
proof (relation "measure length", goal_cases)
  case 1
  show ?case by simp
next
  case (2 c s)
  have "length (drop 4 (dropWhile isSpace s)) \<le> length s"
    using length_dropWhile_le [of isSpace s] by simp
  then have "length (drop 4 (dropWhile isSpace s)) < length (c # s)" by simp
  then show ?case unfolding in_measure .
next
  case (3 c s)
  show ?case by simp
qed

definition applyNewlineBeforeElse :: "string \<Rightarrow> string list \<Rightarrow> string" where
  \<comment> \<open>the accumulator \<open>acc\<close> is a parameter that the body never reads\<close>
  "applyNewlineBeforeElse line acc =
     (if \<not> elseAhead line \<and> hasBraceElse line then splitBraceElse line else line)"

subsection \<open>Indentation utilities\<close>

text \<open>
  The two exceptions that a run can end with: the \<open>RangeError\<close> of
  \<open>String.prototype.repeat\<close>, and the \<open>Error\<close> that \<open>Range.create\<close> of the library throws
  on arguments that it does not accept.
\<close>

datatype error = RangeError | InvalidArguments

text \<open>
  The tab size is a natural number (the \<open>uinteger\<close> of the language server protocol).
  With hard tabs and \<open>tabSize = 0\<close> the source divides by zero: a lead with a tab has
  width \<open>NaN\<close> and a lead that is empty gives \<open>0 / 0 = NaN\<close>, and \<open>repeat(NaN)\<close> is the
  empty string; a lead of spaces alone gives \<open>Math.floor(width / 0) = Infinity\<close>, and
  \<open>"\t".repeat(Infinity)\<close> throws a RangeError.
\<close>

definition normalizeIndent :: "string \<Rightarrow> string \<Rightarrow> nat \<Rightarrow> bool \<Rightarrow> error + string" where
  "normalizeIndent line indentUnit tabSz useSpaces =
     (let lead = takeWhile isSpTab line;
          body = drop (length lead) line
      in if useSpaces then
           Inr (concat (map (\<lambda>c. if c = tabch then replicate tabSz (CHR '' '') else [c]) lead)
                @ body)
         else if tabSz = 0 then
           (if lead = [] \<or> tabch \<in> set lead then Inr body else Inl RangeError)
         else
           (let width = visualWidth lead tabSz in
            Inr (replicate (width div tabSz) tabch @ replicate (width mod tabSz) (CHR '' '')
                 @ body)))"

definition applyIndentHeuristic :: "string \<Rightarrow> int \<Rightarrow> string \<Rightarrow> string" where
  "applyIndentHeuristic line level indentUnit =
     repeat indentUnit (nat (max 0 level)) @ trimStartSpTab line"

definition isOpenBracket :: "char \<Rightarrow> bool" where
  "isOpenBracket c = (c = CHR ''{'' \<or> c = CHR ''['' \<or> c = CHR ''('')"

definition isCloseBracket :: "char \<Rightarrow> bool" where
  "isCloseBracket c = (c = CHR ''}'' \<or> c = CHR '']'' \<or> c = CHR '')'')"

definition netBracketDelta :: "string \<Rightarrow> int" where
  "netBracketDelta line =
     (let s = stripStrings line;
          opens = length (filter isOpenBracket s);
          closes = length (filter isCloseBracket s)
      in int opens - int closes)"

definition startsWithClosingBracket :: "string \<Rightarrow> bool" where
  "startsWithClosingBracket line =
     (case trimStartSpTab line of [] \<Rightarrow> False | c # _ \<Rightarrow> isCloseBracket c)"

subsection \<open>Options\<close>

text \<open>
  Every field of \<open>ExtraFormattingOptions\<close> may be absent (\<open>None\<close> is \<open>undefined\<close>).
  Counts that the source compares or tests for truth are integers.
\<close>

datatype eol_mode = LF | CRLF

record ExtraFormattingOptions =
  tabSize :: "nat option"
  insertSpaces :: "bool option"
  trimTrailingWhitespace :: "bool option"
  insertFinalNewline :: "bool option"
  trimFinalNewlines :: "bool option"
  normalizeEOL :: "eol_mode option"
  maxConsecutiveBlankLines :: "int option"
  ensureSpaceAroundOperators :: "bool option"
  spaceAfterComma :: "bool option"
  spaceAroundColon :: "colon_mode option"
  normalizeQuotes :: "quote_mode option"
  keepIndentInsideStrings :: "bool option"
  alignInlineComments :: "bool option"
  alignEquals :: "bool option"
  braceStyle :: "brace_style option"
  newlineBeforeElse :: "bool option"
  wrapCommentsAt :: "int option"

definition defaultOptions :: ExtraFormattingOptions where
  \<comment> \<open>the default value of the parameter \<open>options\<close> of \<open>provideFormattingEdits\<close>\<close>
  "defaultOptions = \<lparr>
     tabSize = Some 2, insertSpaces = Some True, trimTrailingWhitespace = Some True,
     insertFinalNewline = Some True, trimFinalNewlines = Some True,
     normalizeEOL = Some LF, maxConsecutiveBlankLines = Some 2,
     ensureSpaceAroundOperators = Some True, spaceAfterComma = Some True,
     spaceAroundColon = Some ColonRight,
     normalizeQuotes = Some QuotePreserve, keepIndentInsideStrings = Some True,
     alignInlineComments = Some True, alignEquals = Some True,
     braceStyle = Some Attach, newlineBeforeElse = Some False,
     wrapCommentsAt = Some 100 \<rparr>"

definition truthy :: "bool option \<Rightarrow> bool" where
  \<comment> \<open>\<open>if (opt.field)\<close>: an absent field is falsy\<close>
  "truthy b = (b = Some True)"

definition orElse :: "'a option \<Rightarrow> 'a \<Rightarrow> 'a" where
  \<comment> \<open>\<open>opt.field ?? d\<close>\<close>
  "orElse v d = (case v of None \<Rightarrow> d | Some x \<Rightarrow> x)"

subsection \<open>passIndentAndSpacing\<close>

text \<open>
  \<open>rewriteIndented opt out line\<close> is the body of the loop from the quote normalisation
  to the trimming of trailing white space, applied to the line that
  \<open>applyIndentHeuristic\<close> returned.
\<close>

definition rewriteIndented :: "ExtraFormattingOptions \<Rightarrow> string list \<Rightarrow> string \<Rightarrow> string" where
  "rewriteIndented opt out line0 =
     (let line1 = (case normalizeQuotes opt of
                     Some QuoteDouble \<Rightarrow> normalizeQuotesInLine line0 QuoteDouble
                   | Some QuoteSingle \<Rightarrow> normalizeQuotesInLine line0 QuoteSingle
                   | _ \<Rightarrow> line0);
          line2 = (if truthy (ensureSpaceAroundOperators opt)
                   then ensureSpacesAroundOpsOutsideStrings line1 else line1);
          line3 = (if truthy (spaceAfterComma opt)
                   then ensureSpaceAfterCommasOutsideStrings line2 else line2);
          line4 = (case spaceAroundColon opt of
                     None \<Rightarrow> line3
                   | Some ColonNone \<Rightarrow> line3
                   | Some mode \<Rightarrow> ensureSpaceAroundColonOutsideStrings line3 mode);
          line5 = applyBraceStyle line4 (orElse (braceStyle opt) Attach);
          line6 = (if truthy (newlineBeforeElse opt)
                   then applyNewlineBeforeElse line5 out else line5);
          line7 = (if orElse (trimTrailingWhitespace opt) True
                   then trimEndSpTab line6 else line6)
      in line7)"

text \<open>
  The loop, with its two variables \<open>indentLevel\<close> and \<open>out\<close>. The counter is an integer
  and is updated by \<open>netBracketDelta raw\<close> after the line is pushed.
\<close>

fun passIndentAndSpacingLoop ::
  "ExtraFormattingOptions \<Rightarrow> string \<Rightarrow> nat \<Rightarrow> int \<Rightarrow> string list \<Rightarrow> string list
   \<Rightarrow> error + string list" where
  "passIndentAndSpacingLoop opt indentUnit tabSz indentLevel out [] = Inr out"
| "passIndentAndSpacingLoop opt indentUnit tabSz indentLevel out (raw0 # src) =
     (case normalizeIndent raw0 indentUnit tabSz (orElse (insertSpaces opt) True) of
        Inl e \<Rightarrow> Inl e
      | Inr raw \<Rightarrow>
          (let preDec = (if startsWithClosingBracket raw then 1 else 0);
               line = applyIndentHeuristic raw (max 0 (indentLevel - preDec)) indentUnit;
               line' = rewriteIndented opt out line
           in passIndentAndSpacingLoop opt indentUnit tabSz
                (indentLevel + netBracketDelta raw) (out @ [line']) src))"

definition passIndentAndSpacing ::
  "string list \<Rightarrow> string \<Rightarrow> nat \<Rightarrow> ExtraFormattingOptions \<Rightarrow> error + string list" where
  "passIndentAndSpacing src indentUnit tabSz opt =
     passIndentAndSpacingLoop opt indentUnit tabSz 0 [] src"

section \<open>Pass 2: limitBlankRuns\<close>

text \<open>
  The loop with its counter \<open>run\<close>; \<open>maxBlank\<close> is an integer, so a negative limit keeps
  no blank line at all.
\<close>

fun limitBlankRunsLoop :: "int \<Rightarrow> nat \<Rightarrow> string list \<Rightarrow> string list" where
  "limitBlankRunsLoop maxBlank run [] = []"
| "limitBlankRunsLoop maxBlank run (l # ls) =
     (if isBlank l then
        (if int (run + 1) \<le> maxBlank then [] # limitBlankRunsLoop maxBlank (run + 1) ls
         else limitBlankRunsLoop maxBlank (run + 1) ls)
      else l # limitBlankRunsLoop maxBlank 0 ls)"

definition limitBlankRuns :: "string list \<Rightarrow> int \<Rightarrow> string list" where
  "limitBlankRuns lines maxBlank = limitBlankRunsLoop maxBlank 0 lines"

section \<open>Passes 3 and 4: alignment\<close>

subsection \<open>splitCodeAndComment\<close>

fun indexOfClose :: "string \<Rightarrow> nat option" where
  \<comment> \<open>\<open>s.indexOf("*/")\<close>\<close>
  "indexOfClose [] = None"
| "indexOfClose (c # s) =
     (if startsWith (c # s) ''*/'' then Some 0 else map_option Suc (indexOfClose s))"

text \<open>
  \<open>splitFrom inStr code rest\<close>: \<open>code\<close> is the part of the line already scanned. A block
  comment ends the scan only when its \<open>*/\<close> is on the line; the comment returned stops at
  that \<open>*/\<close>.
\<close>

fun splitFrom :: "char option \<Rightarrow> string \<Rightarrow> string \<Rightarrow> string \<times> string" where
  "splitFrom inStr code [] = (code, [])"
| "splitFrom (Some q) code (ch # s) =
     (if ch = backslash then
        (case s of [] \<Rightarrow> (code @ [ch], [])
                 | c2 # s' \<Rightarrow> splitFrom (Some q) (code @ [ch, c2]) s')
      else if ch = q then splitFrom None (code @ [ch]) s
      else splitFrom (Some q) (code @ [ch]) s)"
| "splitFrom None code (ch # s) =
     (if isQuote ch then splitFrom (Some ch) (code @ [ch]) s
      else if ch = CHR ''/'' \<and> startsWith s ''/'' then (code, ch # s)
      else if ch = CHR ''/'' \<and> startsWith s ''*'' then
        (case indexOfClose (drop 1 s) of
           Some j \<Rightarrow> (code, ch # CHR ''*'' # take (j + 2) (drop 1 s))
         | None \<Rightarrow> splitFrom None (code @ [ch]) s)
      else splitFrom None (code @ [ch]) s)"

definition splitCodeAndComment :: "string \<Rightarrow> string \<times> string" where
  "splitCodeAndComment line = splitFrom None [] line"

subsection \<open>alignEndOfLineComments\<close>

definition alignEndOfLineComments :: "string list \<Rightarrow> string list" where
  "alignEndOfLineComments lines =
     (let info = filter (\<lambda>(code, comment). comment \<noteq> []) (map splitCodeAndComment lines);
          maxCode = fold (\<lambda>(code, comment) m. max m (length (trimEndSpTab code))) info 0
      in if info = [] then lines
         else map (\<lambda>l. case splitCodeAndComment l of (code, comment) \<Rightarrow>
                    if comment \<noteq> [] then
                      (let codeTrim = trimEndSpTab code;
                           pad = replicate (nat (max 1 (int maxCode - int (length codeTrim) + 1)))
                                   (CHR '' '')
                       in codeTrim @ pad @ comment)
                    else l) lines)"

subsection \<open>alignEqualsBlocks\<close>

definition beforeFirstEq :: "string \<Rightarrow> string" where
  \<comment> \<open>\<open>l.split("=")[0]\<close>, also the \<open>parts.shift()\<close> of the second loop\<close>
  "beforeFirstEq l = takeWhile (\<lambda>c. c \<noteq> CHR ''='') l"

definition afterFirstEq :: "string \<Rightarrow> string" where
  \<comment> \<open>the other parts, joined with \<open>=\<close> again\<close>
  "afterFirstEq l = drop 1 (dropWhile (\<lambda>c. c \<noteq> CHR ''='') l)"

definition qualifiesForEquals :: "string \<Rightarrow> bool" where
  \<comment> \<open>\<open>sc.includes("=") && !/^\s*\/\//.test(sc)\<close> with \<open>sc = stripStrings(l)\<close>\<close>
  "qualifiesForEquals l =
     (let sc = stripStrings l in
      includesChar sc (CHR ''='') \<and> \<not> startsWith (dropWhile isSpace sc) ''//'')"

definition alignBlock :: "string list \<Rightarrow> string list" where
  \<comment> \<open>the two loops over a block of two lines or more\<close>
  "alignBlock block =
     (let col = fold (\<lambda>l m. max m (visualWidth (beforeFirstEq l) 2)) block 0
      in map (\<lambda>l. let left = beforeFirstEq l;
                       right = afterFirstEq l;
                       pad = replicate (nat (max 1 (int col - int (visualWidth left 2))))
                               (CHR '' '')
                   in trimEndSpTab left @ pad @ '' = '' @ trimStartWs right) block)"

definition flushBlock :: "string list \<Rightarrow> string list" where
  \<comment> \<open>\<open>if (block.length >= 2) { ... }\<close>\<close>
  "flushBlock block = (if 2 \<le> length block then alignBlock block else block)"

text \<open>
  The nested loops over the index \<open>i\<close>, as one recursion over the lines that are left:
  \<open>block\<close> holds the lines of the block being collected (they are consecutive, since a
  line that does not qualify ends a block that has begun). A blank line or such a
  line ends the inner loop, and the \<open>i++\<close> after the block steps over it.
\<close>

fun alignEqualsLoop :: "string list \<Rightarrow> string list \<Rightarrow> string list" where
  "alignEqualsLoop block [] = flushBlock block"
| "alignEqualsLoop block (l # ls) =
     (if isBlank l then flushBlock block @ l # alignEqualsLoop [] ls
      else if qualifiesForEquals l then alignEqualsLoop (block @ [l]) ls
      else if block \<noteq> [] then flushBlock block @ l # alignEqualsLoop [] ls
      else l # alignEqualsLoop [] ls)"

definition alignEqualsBlocks :: "string list \<Rightarrow> string list" where
  "alignEqualsBlocks lines = alignEqualsLoop [] lines"

section \<open>Pass 5: comment wrapping\<close>

function splitWsFrom :: "string \<Rightarrow> string \<Rightarrow> string list" where
  \<comment> \<open>\<open>s.split(/\s+/)\<close>: \<open>cur\<close> is the piece being read\<close>
  "splitWsFrom cur [] = [cur]"
| "splitWsFrom cur (c # s) =
     (if isSpace c then cur # splitWsFrom [] (dropWhile isSpace s)
      else splitWsFrom (cur @ [c]) s)"
  by pat_completeness auto
termination
  by (relation "measure (\<lambda>(cur, s). length s)")
     (auto simp: length_dropWhile_le le_imp_less_Suc)

fun wrapWords :: "int \<Rightarrow> string \<Rightarrow> string list \<Rightarrow> string list" where
  "wrapWords width cur [] = (if cur \<noteq> [] then [cur] else [])"
| "wrapWords width cur (w # ws) =
     (if cur = [] then wrapWords width w ws
      else if int (length cur) + 1 + int (length w) \<le> width
        then wrapWords width (cur @ '' '' @ w) ws
      else cur # wrapWords width w ws)"

definition wrapText :: "string \<Rightarrow> int \<Rightarrow> string list" where
  "wrapText s width =
     (if int (length s) \<le> width then [s] else wrapWords width [] (splitWsFrom [] s))"

definition noLineTerminator :: "string \<Rightarrow> bool" where
  \<comment> \<open>\<open>(.*)$\<close> matches the rest of the string\<close>
  "noLineTerminator s = list_all (\<lambda>c. \<not> isLineTerminator c) s"

definition matchCommentLine :: "string \<Rightarrow> (string \<times> string) option" where
  \<comment> \<open>\<open>/^(\s*\/\/\s?)(.*)$/.exec(l)\<close>: the groups 1 and 2\<close>
  "matchCommentLine l =
     (let ws = takeWhile isSpace l;
          r = dropWhile isSpace l
      in if startsWith r ''//'' then
           (let r2 = drop 2 r in
            case r2 of
              [] \<Rightarrow> Some (ws @ ''//'', [])
            | c # r3 \<Rightarrow>
                if isSpace c \<and> noLineTerminator r3 then Some (ws @ ''//'' @ [c], r3)
                else if noLineTerminator r2 then Some (ws @ ''//'', r2)
                else None)
         else None)"

definition wrapCommentLines :: "string list \<Rightarrow> int \<Rightarrow> string list" where
  "wrapCommentLines lines maxCol =
     concat (map (\<lambda>l. case matchCommentLine l of
                         None \<Rightarrow> [l]
                       | Some (prefix, body) \<Rightarrow>
                           map (\<lambda>w. prefix @ w)
                             (wrapText (trim body) (maxCol - int (visualWidth prefix 2))))
                 lines)"

section \<open>formatLines\<close>

definition formatLines :: "string list \<Rightarrow> ExtraFormattingOptions \<Rightarrow> error + string list" where
  "formatLines src opt =
     (let tabSz = orElse (tabSize opt) 2;
          indentUnit = (if orElse (insertSpaces opt) True
                        then replicate tabSz (CHR '' '') else [tabch])
      in case passIndentAndSpacing src indentUnit tabSz opt of
           Inl e \<Rightarrow> Inl e
         | Inr lines1 \<Rightarrow>
             (let lines2 = limitBlankRuns lines1 (orElse (maxConsecutiveBlankLines opt) 2);
                  lines3 = (if truthy (alignInlineComments opt)
                            then alignEndOfLineComments lines2 else lines2);
                  lines4 = (if truthy (alignEquals opt)
                            then alignEqualsBlocks lines3 else lines3);
                  lines5 = (case wrapCommentsAt opt of
                              None \<Rightarrow> lines4
                            | Some n \<Rightarrow> if n \<noteq> 0 \<and> n > 10 then wrapCommentLines lines4 n
                                        else lines4)
              in Inr lines5))"

section \<open>Lines, edits and the entry point\<close>

fun replaceCRLF :: "string \<Rightarrow> string" where
  \<comment> \<open>\<open>text.replace(/\r\n/g, "\n")\<close>\<close>
  "replaceCRLF [] = []"
| "replaceCRLF [c] = [c]"
| "replaceCRLF (c # d # s) =
     (if c = cr \<and> d = lf then lf # replaceCRLF s else c # replaceCRLF (d # s))"

fun splitAt :: "char \<Rightarrow> string \<Rightarrow> string list" where
  \<comment> \<open>\<open>s.split(/\n/)\<close>: one more piece than separators\<close>
  "splitAt sep [] = [[]]"
| "splitAt sep (c # s) =
     (if c = sep then [] # splitAt sep s
      else (case splitAt sep s of [] \<Rightarrow> [[c]] | l # ls \<Rightarrow> (c # l) # ls))"

definition splitLines :: "string \<Rightarrow> string list" where
  "splitLines text = splitAt lf (replaceCRLF text)"

fun joinLF :: "string list \<Rightarrow> string" where
  \<comment> \<open>\<open>lines.join("\n")\<close>\<close>
  "joinLF [] = []"
| "joinLF [l] = l"
| "joinLF (l # ls) = l @ [lf] @ joinLF ls"

definition joinWithEOL :: "string list \<Rightarrow> eol_mode \<Rightarrow> string" where
  "joinWithEOL lines mode =
     (let s = joinLF lines in
      case mode of
        CRLF \<Rightarrow> concat (map (\<lambda>c. if c = lf then [cr, lf] else [c]) s)
      | LF \<Rightarrow> s)"

definition trimFinalNewlineRun :: "string \<Rightarrow> string" where
  \<comment> \<open>\<open>text.replace(/\n+$/g, "\n")\<close>\<close>
  "trimFinalNewlineRun text =
     (if endsWithNewline text then rev (dropWhile (\<lambda>c. c = lf) (rev text)) @ [lf] else text)"

record Position =
  posLine :: nat
  posCharacter :: nat

record Range =
  rangeStart :: Position
  rangeEnd :: Position

record TextEdit =
  editRange :: Range
  newText :: string

text \<open>
  The document is the host's object: its text, its line count and its \<open>getText(range)\<close>
  are what the host supplies.
\<close>

record TextDocument =
  getText :: string
  lineCount :: nat
  getTextIn :: "Range \<Rightarrow> string"

text \<open>
  \<open>Position.create\<close>, \<open>Range.create\<close> and \<open>TextEdit.replace\<close> belong to the library
  \<open>vscode-languageserver\<close>, which is not part of the repository and whose version the
  repository does not fix. \<open>Position.create\<close> returns the pair of its arguments for the
  numbers that \<open>fullRange\<close> passes, and \<open>TextEdit.replace\<close> the pair of its arguments.
  \<open>Range.create\<close> depends on the version, and is a parameter of the model:
  \<^item> before version 3.16 of the protocol types it returns the range of any two
    positions (\<open>rangeCreateUnchecked\<close>);
  \<^item> from version 3.16 on it throws unless the line and the character of both
    positions are \<open>uinteger\<close>, that is, at most 2147483647 (\<open>rangeCreateChecked\<close>).
  \<open>fullRange\<close> asks for the text of the last line with the end character
  \<open>Number.MAX_SAFE_INTEGER = 9007199254740991\<close>, which is not a \<open>uinteger\<close>.
\<close>

type_synonym range_create = "Position \<Rightarrow> Position \<Rightarrow> error + Range"

definition rangeCreateUnchecked :: range_create where
  "rangeCreateUnchecked one two = Inr \<lparr> rangeStart = one, rangeEnd = two \<rparr>"

definition isUinteger :: "nat \<Rightarrow> bool" where
  "isUinteger n = (n \<le> 2147483647)"

definition rangeCreateChecked :: range_create where
  "rangeCreateChecked one two =
     (if isUinteger (posLine one) \<and> isUinteger (posCharacter one)
         \<and> isUinteger (posLine two) \<and> isUinteger (posCharacter two)
      then Inr \<lparr> rangeStart = one, rangeEnd = two \<rparr>
      else Inl InvalidArguments)"

definition fullRange :: "range_create \<Rightarrow> TextDocument \<Rightarrow> error + Range" where
  "fullRange create doc =
     (let lastLine = nat (max 0 (int (lineCount doc) - 1))
      in case create \<lparr> posLine = lastLine, posCharacter = 0 \<rparr>
                     \<lparr> posLine = lastLine, posCharacter = 9007199254740991 \<rparr> of
           Inl e \<Rightarrow> Inl e
         | Inr lastRange \<Rightarrow>
             (let lastText = getTextIn doc lastRange
              in create \<lparr> posLine = 0, posCharacter = 0 \<rparr>
                        \<lparr> posLine = lastLine, posCharacter = length lastText \<rparr>))"

definition normalizedOriginal :: "string \<Rightarrow> ExtraFormattingOptions \<Rightarrow> string" where
  \<comment> \<open>\<open>normalizedOrig\<close>\<close>
  "normalizedOriginal original opt =
     joinWithEOL (splitLines original) (orElse (normalizeEOL opt) LF)"

definition formattedText :: "string \<Rightarrow> ExtraFormattingOptions \<Rightarrow> error + string" where
  \<comment> \<open>the value of \<open>text\<close> when \<open>provideFormattingEdits\<close> compares it\<close>
  "formattedText original opt =
     (case formatLines (splitLines original) opt of
        Inl e \<Rightarrow> Inl e
      | Inr outLines \<Rightarrow>
          (let text1 = joinWithEOL outLines (orElse (normalizeEOL opt) LF);
               text2 = (if truthy (trimFinalNewlines opt) then trimFinalNewlineRun text1
                        else text1);
               text3 = (if truthy (insertFinalNewline opt) \<and> \<not> endsWithNewline text2
                        then text2 @ [lf] else text2)
           in Inr text3))"

text \<open>
  The entry point. \<open>fullRange\<close> is called on the path that returns an edit, after the
  comparison of the two texts.
\<close>

definition provideFormattingEdits ::
  "range_create \<Rightarrow> TextDocument \<Rightarrow> ExtraFormattingOptions option \<Rightarrow> error + TextEdit list" where
  "provideFormattingEdits create doc options =
     (let opt = orElse options defaultOptions;
          original = getText doc
      in case formattedText original opt of
           Inl e \<Rightarrow> Inl e
         | Inr text \<Rightarrow>
             if normalizedOriginal original opt = text then Inr []
             else (case fullRange create doc of
                     Inl e \<Rightarrow> Inl e
                   | Inr r \<Rightarrow> Inr [\<lparr> editRange = r, newText = text \<rparr>]))"

definition formatDocument ::
  "range_create \<Rightarrow> TextDocument \<Rightarrow> ExtraFormattingOptions option \<Rightarrow> error + TextEdit list" where
  "formatDocument create doc options = provideFormattingEdits create doc options"

section \<open>Notions used in the statements\<close>

text \<open>
  \<open>closedContent q s\<close>: \<open>s\<close> is the content of a literal that the quote \<open>q\<close> closes, that
  is, \<open>q\<close> occurs in \<open>s\<close> only behind a backslash and \<open>s\<close> does not end in the middle
  of an escape.
\<close>

fun closedContent :: "char \<Rightarrow> string \<Rightarrow> bool" where
  "closedContent q [] = True"
| "closedContent q (c # s) =
     (if c = backslash then (case s of [] \<Rightarrow> False | c2 # s' \<Rightarrow> closedContent q s')
      else c \<noteq> q \<and> closedContent q s)"

text \<open>
  \<open>bracketDepth\<close> of the lines read so far is the value of \<open>indentLevel\<close> in a run that
  started at zero: the sum of \<open>netBracketDelta\<close> over the normalised lines, an integer
  with no lower bound.
\<close>

definition lineDelta :: "string \<Rightarrow> nat \<Rightarrow> ExtraFormattingOptions \<Rightarrow> string \<Rightarrow> int" where
  "lineDelta indentUnit tabSz opt l =
     (case normalizeIndent l indentUnit tabSz (orElse (insertSpaces opt) True) of
        Inl e \<Rightarrow> 0
      | Inr raw \<Rightarrow> netBracketDelta raw)"

definition bracketDepth :: "string \<Rightarrow> nat \<Rightarrow> ExtraFormattingOptions \<Rightarrow> string list \<Rightarrow> int" where
  "bracketDepth indentUnit tabSz opt ls = sum_list (map (lineDelta indentUnit tabSz opt) ls)"

text \<open>
  \<open>emptyOptions\<close> is the options value \<open>{}\<close>, and \<open>onlyIndentOptions\<close> the value
  \<open>{ tabSize: 2, insertSpaces: true }\<close>.
\<close>

definition emptyOptions :: ExtraFormattingOptions where
  "emptyOptions = \<lparr>
     tabSize = None, insertSpaces = None, trimTrailingWhitespace = None,
     insertFinalNewline = None, trimFinalNewlines = None,
     normalizeEOL = None, maxConsecutiveBlankLines = None,
     ensureSpaceAroundOperators = None, spaceAfterComma = None,
     spaceAroundColon = None,
     normalizeQuotes = None, keepIndentInsideStrings = None,
     alignInlineComments = None, alignEquals = None,
     braceStyle = None, newlineBeforeElse = None,
     wrapCommentsAt = None \<rparr>"

definition onlyIndentOptions :: ExtraFormattingOptions where
  "onlyIndentOptions = \<lparr>
     tabSize = Some 2, insertSpaces = Some True, trimTrailingWhitespace = None,
     insertFinalNewline = None, trimFinalNewlines = None,
     normalizeEOL = None, maxConsecutiveBlankLines = None,
     ensureSpaceAroundOperators = None, spaceAfterComma = None,
     spaceAroundColon = None,
     normalizeQuotes = None, keepIndentInsideStrings = None,
     alignInlineComments = None, alignEquals = None,
     braceStyle = None, newlineBeforeElse = None,
     wrapCommentsAt = None \<rparr>"

text \<open>
  What the entry point does with an options value that it was given: the fields read
  with \<open>??\<close> have a default of their own, a field tested for truth is off when absent,
  and \<open>keepIndentInsideStrings\<close> is never read.
\<close>

definition effectiveOptions :: "ExtraFormattingOptions \<Rightarrow> ExtraFormattingOptions" where
  "effectiveOptions opt = \<lparr>
     tabSize = Some (orElse (tabSize opt) 2),
     insertSpaces = Some (orElse (insertSpaces opt) True),
     trimTrailingWhitespace = Some (orElse (trimTrailingWhitespace opt) True),
     insertFinalNewline = Some (truthy (insertFinalNewline opt)),
     trimFinalNewlines = Some (truthy (trimFinalNewlines opt)),
     normalizeEOL = Some (orElse (normalizeEOL opt) LF),
     maxConsecutiveBlankLines = Some (orElse (maxConsecutiveBlankLines opt) 2),
     ensureSpaceAroundOperators = Some (truthy (ensureSpaceAroundOperators opt)),
     spaceAfterComma = Some (truthy (spaceAfterComma opt)),
     spaceAroundColon = Some (orElse (spaceAroundColon opt) ColonNone),
     normalizeQuotes = Some (orElse (normalizeQuotes opt) QuotePreserve),
     keepIndentInsideStrings = keepIndentInsideStrings opt,
     alignInlineComments = Some (truthy (alignInlineComments opt)),
     alignEquals = Some (truthy (alignEquals opt)),
     braceStyle = Some (orElse (braceStyle opt) Attach),
     newlineBeforeElse = Some (truthy (newlineBeforeElse opt)),
     wrapCommentsAt = Some (orElse (wrapCommentsAt opt) 0) \<rparr>"

text \<open>
  The options value as the specification reads it: every absent field takes its
  documented default (tabSize 2, insertSpaces true, trimTrailingWhitespace true,
  insertFinalNewline true, trimFinalNewlines true, normalizeEOL lf,
  maxConsecutiveBlankLines 2, ensureSpaceAroundOperators true, spaceAfterComma true,
  spaceAroundColon right, normalizeQuotes preserve, alignInlineComments true,
  alignEquals true, braceStyle attach, newlineBeforeElse false, wrapCommentsAt 100).
\<close>

definition orDefault :: "'a option \<Rightarrow> 'a option \<Rightarrow> 'a option" where
  "orDefault v d = (case v of None \<Rightarrow> d | Some x \<Rightarrow> Some x)"

definition withDocumentedDefaults :: "ExtraFormattingOptions \<Rightarrow> ExtraFormattingOptions" where
  "withDocumentedDefaults opt = \<lparr>
     tabSize = orDefault (tabSize opt) (Some 2),
     insertSpaces = orDefault (insertSpaces opt) (Some True),
     trimTrailingWhitespace = orDefault (trimTrailingWhitespace opt) (Some True),
     insertFinalNewline = orDefault (insertFinalNewline opt) (Some True),
     trimFinalNewlines = orDefault (trimFinalNewlines opt) (Some True),
     normalizeEOL = orDefault (normalizeEOL opt) (Some LF),
     maxConsecutiveBlankLines = orDefault (maxConsecutiveBlankLines opt) (Some 2),
     ensureSpaceAroundOperators = orDefault (ensureSpaceAroundOperators opt) (Some True),
     spaceAfterComma = orDefault (spaceAfterComma opt) (Some True),
     spaceAroundColon = orDefault (spaceAroundColon opt) (Some ColonRight),
     normalizeQuotes = orDefault (normalizeQuotes opt) (Some QuotePreserve),
     keepIndentInsideStrings = keepIndentInsideStrings opt,
     alignInlineComments = orDefault (alignInlineComments opt) (Some True),
     alignEquals = orDefault (alignEquals opt) (Some True),
     braceStyle = orDefault (braceStyle opt) (Some Attach),
     newlineBeforeElse = orDefault (newlineBeforeElse opt) (Some False),
     wrapCommentsAt = orDefault (wrapCommentsAt opt) (Some 100) \<rparr>"

text \<open>
  The text that the entry point compares with the normalised original, from the lines
  that \<open>formatLines\<close> returned: joined under the end-of-line convention, then the final
  run of newlines trimmed, then the final newline inserted.
\<close>

definition finalText :: "string list \<Rightarrow> ExtraFormattingOptions \<Rightarrow> string" where
  "finalText outLines opt =
     (let joined = joinWithEOL outLines (orElse (normalizeEOL opt) LF);
          trimmed = (if truthy (trimFinalNewlines opt) then trimFinalNewlineRun joined else joined)
      in if truthy (insertFinalNewline opt) \<and> \<not> endsWithNewline trimmed then trimmed @ [lf]
         else trimmed)"

section \<open>Evaluation\<close>

text \<open>
  The definitions above compute; the simplifier evaluates them on a concrete text with
  these equations.
\<close>

lemma replicate_numeral_unfold: "replicate (numeral k) x = x # replicate (pred_numeral k) x"
  by (simp add: numeral_eq_Suc)

lemmas eval_simps = replicate_numeral_unfold
  isSpace_def isSpTab_def isQuote_def isWordChar_def isLineTerminator_def
  endsWithNewline_def includesChar_def trimEndSpTab_def trimStartWs_def trimStartSpTab_def
  trim_def isBlank_def repeat_def visualWidth_def stripStrings_def rewriteOutsideStrings_def
  rewriteStrings_def ops_def matchOp_def ensureSpacesAroundOpsOutsideStrings_def
  isCommaCloser_def ensureSpaceAfterCommasOutsideStrings_def escapeQuote_def normalizeQuote_def
  normalizeQuotesInLine_def braceTail_def elseAhead_def applyNewlineBeforeElse_def
  normalizeIndent_def applyIndentHeuristic_def isOpenBracket_def isCloseBracket_def
  netBracketDelta_def startsWithClosingBracket_def defaultOptions_def truthy_def orElse_def
  rewriteIndented_def passIndentAndSpacing_def limitBlankRuns_def splitCodeAndComment_def
  alignEndOfLineComments_def beforeFirstEq_def afterFirstEq_def qualifiesForEquals_def
  alignBlock_def flushBlock_def alignEqualsBlocks_def wrapText_def noLineTerminator_def
  matchCommentLine_def wrapCommentLines_def formatLines_def splitLines_def joinWithEOL_def
  trimFinalNewlineRun_def rangeCreateUnchecked_def isUinteger_def rangeCreateChecked_def
  fullRange_def normalizedOriginal_def formattedText_def
  provideFormattingEdits_def formatDocument_def Let_def

lemmas depth_simps = eval_simps lineDelta_def bracketDepth_def emptyOptions_def

section \<open>The entry point\<close>

lemma normalizeIndent_returns:
  "0 < tabSz \<or> useSpaces \<Longrightarrow> \<exists>raw. normalizeIndent line indentUnit tabSz useSpaces = Inr raw"
  by (auto simp: normalizeIndent_def Let_def)

lemma passIndentAndSpacingLoop_returns:
  "0 < tabSz \<or> orElse (insertSpaces opt) True \<Longrightarrow>
   \<exists>res. passIndentAndSpacingLoop opt indentUnit tabSz lvl acc src = Inr res"
proof (induction src arbitrary: lvl acc)
  case Nil
  show ?case by simp
next
  case (Cons raw0 src)
  from normalizeIndent_returns [OF Cons.prems] obtain raw where
    "normalizeIndent raw0 indentUnit tabSz (orElse (insertSpaces opt) True) = Inr raw" by blast
  with Cons.IH [OF Cons.prems] show ?case by (simp add: Let_def)
qed

lemma formatLines_returns:
  "0 < orElse (tabSize opt) 2 \<or> orElse (insertSpaces opt) True \<Longrightarrow>
   \<exists>outLines. formatLines src opt = Inr outLines"
proof -
  assume a: "0 < orElse (tabSize opt) 2 \<or> orElse (insertSpaces opt) True"
  from passIndentAndSpacingLoop_returns [OF a] obtain res where
    "passIndentAndSpacing src
       (if orElse (insertSpaces opt) True then replicate (orElse (tabSize opt) 2) (CHR '' '')
        else [tabch]) (orElse (tabSize opt) 2) opt = Inr res"
    unfolding passIndentAndSpacing_def by blast
  then show ?thesis by (simp add: formatLines_def Let_def)
qed

text \<open>
  What the two versions of \<open>Range.create\<close> make of \<open>fullRange\<close>: the unchecked one
  returns the range from (0, 0) to the end of the text that the host gave for the
  last line, the checked one throws at the first call, for every document.
\<close>

lemma fullRange_unchecked:
  "fullRange rangeCreateUnchecked doc =
     Inr \<lparr> rangeStart = \<lparr> posLine = 0, posCharacter = 0 \<rparr>,
           rangeEnd = \<lparr> posLine = lineCount doc - 1,
                        posCharacter = length (getTextIn doc
                          \<lparr> rangeStart = \<lparr> posLine = lineCount doc - 1, posCharacter = 0 \<rparr>,
                            rangeEnd = \<lparr> posLine = lineCount doc - 1,
                                         posCharacter = 9007199254740991 \<rparr> \<rparr>) \<rparr> \<rparr>"
proof -
  have n: "nat (max 0 (int (lineCount doc) - 1)) = lineCount doc - 1" by linarith
  show ?thesis unfolding fullRange_def Let_def n rangeCreateUnchecked_def by simp
qed

lemma fullRange_checked: "fullRange rangeCreateChecked doc = Inl InvalidArguments"
  by (simp add: fullRange_def Let_def rangeCreateChecked_def isUinteger_def)

text \<open>
  What holds of the entry point: when the tab size is positive or spaces are
  inserted, the lines are formatted without an exception, no edit is returned when
  the final text equals the normalised original, and otherwise the one edit with the
  final text is returned, if \<open>Range.create\<close> returns.
\<close>

lemma provideFormattingEdits_when_formatLines_returns:
  assumes "opt = orElse options defaultOptions"
    and "0 < orElse (tabSize opt) 2 \<or> orElse (insertSpaces opt) True"
  shows "\<exists>outLines.
           formatLines (splitLines (getText doc)) opt = Inr outLines
         \<and> provideFormattingEdits create doc options =
             (if finalText outLines opt
                   = joinWithEOL (splitLines (getText doc)) (orElse (normalizeEOL opt) LF)
              then Inr []
              else case fullRange create doc of
                     Inl e \<Rightarrow> Inl e
                   | Inr r \<Rightarrow> Inr [\<lparr> editRange = r, newText = finalText outLines opt \<rparr>])"
proof -
  from formatLines_returns [OF assms(2)] obtain outLines where
    f: "formatLines (splitLines (getText doc)) opt = Inr outLines" by blast
  have t: "formattedText (getText doc) opt = Inr (finalText outLines opt)"
    by (simp add: formattedText_def f finalText_def Let_def)
  have "provideFormattingEdits create doc options =
             (if finalText outLines opt
                   = joinWithEOL (splitLines (getText doc)) (orElse (normalizeEOL opt) LF)
              then Inr []
              else case fullRange create doc of
                     Inl e \<Rightarrow> Inl e
                   | Inr r \<Rightarrow> Inr [\<lparr> editRange = r, newText = finalText outLines opt \<rparr>])"
    using t assms(1) by (auto simp: provideFormattingEdits_def Let_def normalizedOriginal_def)
  with f show ?thesis by blast
qed

lemma provideFormattingEdits_raises:
  "formatLines (splitLines (getText doc)) (orElse options defaultOptions) = Inl e \<Longrightarrow>
   provideFormattingEdits create doc options = Inl e"
  by (simp add: provideFormattingEdits_def formattedText_def Let_def)

text \<open>
  Claim C6 at two documents. With hard tabs and a tab size of zero, the line \<open> x\<close>
  (one space, then \<open>x\<close>) makes \<open>normalizeIndent\<close> raise a RangeError, whatever the
  library: the run returns neither the empty list nor an edit. With the checked
  \<open>Range.create\<close>, the run on \<open>a=1\<close> with the default options raises on the path that
  was to return the edit. Where no exception is raised the claim's two cases are
  what the code returns: with the unchecked \<open>Range.create\<close> the text \<open>a=1\<close> gets the one
  edit over the full range, and the text \<open>a = 1\<close> with its final newline gets no edit.
  The final text is the one of the claim: a final run of newlines is trimmed to one,
  and under the convention \<open>crlf\<close> the lines are joined with carriage return and line
  feed.
\<close>

theorem provideFormattingEdits_raises_instead_of_returning:
  "provideFormattingEdits create
     \<lparr> getText = '' x'', lineCount = 1, getTextIn = (\<lambda>r. '' x'') \<rparr>
     (Some (defaultOptions \<lparr> tabSize := Some 0, insertSpaces := Some False \<rparr>))
   = Inl RangeError
   \<and> normalizeIndent '' x'' [tabch] 0 False = Inl RangeError
   \<and> provideFormattingEdits rangeCreateChecked
        \<lparr> getText = ''a=1'', lineCount = 1, getTextIn = (\<lambda>r. ''a=1'') \<rparr> None
      = Inl InvalidArguments
   \<and> provideFormattingEdits rangeCreateUnchecked
        \<lparr> getText = ''a=1'', lineCount = 1, getTextIn = (\<lambda>r. ''a=1'') \<rparr> None
      = Inr [\<lparr> editRange = \<lparr> rangeStart = \<lparr> posLine = 0, posCharacter = 0 \<rparr>,
                               rangeEnd = \<lparr> posLine = 0, posCharacter = 3 \<rparr> \<rparr>,
               newText = ''a = 1\<newline>'' \<rparr>]
   \<and> provideFormattingEdits create
        \<lparr> getText = ''a = 1\<newline>'', lineCount = 2, getTextIn = (\<lambda>r. []) \<rparr> None = Inr []
   \<and> formattedText ''a = 1\<newline>\<newline>\<newline>'' defaultOptions = Inr ''a = 1\<newline>''
   \<and> formattedText ''a=1\<newline>b'' (defaultOptions \<lparr> normalizeEOL := Some CRLF \<rparr>)
      = Inr (''a = 1'' @ [cr, lf] @ ''b'' @ [lf])"
  by (simp add: eval_simps)

subsection \<open>Absent options\<close>

lemma rewriteIndented_effective:
  "rewriteIndented (effectiveOptions opt) acc line = rewriteIndented opt acc line"
  by (simp add: rewriteIndented_def effectiveOptions_def truthy_def orElse_def
      split: option.splits quote_mode.splits colon_mode.splits)

lemma passIndentAndSpacingLoop_effective:
  "passIndentAndSpacingLoop (effectiveOptions opt) indentUnit tabSz lvl acc src =
   passIndentAndSpacingLoop opt indentUnit tabSz lvl acc src"
proof (induction src arbitrary: lvl acc)
  case Nil
  show ?case by simp
next
  case (Cons raw0 src)
  have u: "orElse (insertSpaces (effectiveOptions opt)) True = orElse (insertSpaces opt) True"
    by (simp add: effectiveOptions_def orElse_def)
  show ?case
    by (simp add: u rewriteIndented_effective Cons.IH split: sum.splits)
qed

lemma formatLines_effective: "formatLines src (effectiveOptions opt) = formatLines src opt"
proof -
  have a: "orElse (tabSize (effectiveOptions opt)) 2 = orElse (tabSize opt) 2"
    "orElse (insertSpaces (effectiveOptions opt)) True = orElse (insertSpaces opt) True"
    "orElse (maxConsecutiveBlankLines (effectiveOptions opt)) 2
       = orElse (maxConsecutiveBlankLines opt) 2"
    "truthy (alignInlineComments (effectiveOptions opt)) = truthy (alignInlineComments opt)"
    "truthy (alignEquals (effectiveOptions opt)) = truthy (alignEquals opt)"
    by (simp_all add: effectiveOptions_def orElse_def truthy_def)
  have w: "(case wrapCommentsAt (effectiveOptions opt) of None \<Rightarrow> ls
            | Some n \<Rightarrow> if n \<noteq> 0 \<and> n > 10 then wrapCommentLines ls n else ls)
         = (case wrapCommentsAt opt of None \<Rightarrow> ls
            | Some n \<Rightarrow> if n \<noteq> 0 \<and> n > 10 then wrapCommentLines ls n else ls)" for ls
    by (simp add: effectiveOptions_def orElse_def split: option.splits)
  show ?thesis
    unfolding formatLines_def passIndentAndSpacing_def a w passIndentAndSpacingLoop_effective ..
qed

lemma formattedText_effective:
  "formattedText text (effectiveOptions opt) = formattedText text opt"
proof -
  have a: "orElse (normalizeEOL (effectiveOptions opt)) LF = orElse (normalizeEOL opt) LF"
    "truthy (trimFinalNewlines (effectiveOptions opt)) = truthy (trimFinalNewlines opt)"
    "truthy (insertFinalNewline (effectiveOptions opt)) = truthy (insertFinalNewline opt)"
    by (simp_all add: effectiveOptions_def orElse_def truthy_def)
  show ?thesis unfolding formattedText_def a formatLines_effective ..
qed

lemma normalizedOriginal_effective:
  "normalizedOriginal text (effectiveOptions opt) = normalizedOriginal text opt"
  by (simp add: normalizedOriginal_def effectiveOptions_def orElse_def)

text \<open>
  Claim C4, as the code has it. The result for an options value is the result for its
  effective value, whatever the library and the document: an absent \<open>tabSize\<close>,
  \<open>insertSpaces\<close>, \<open>trimTrailingWhitespace\<close>, \<open>normalizeEOL\<close>,
  \<open>maxConsecutiveBlankLines\<close> or \<open>braceStyle\<close> takes its documented default, and every
  other absent field leaves its feature off. The documented defaults as a whole apply
  when no options value is passed.
\<close>

theorem absent_options_effective:
  "provideFormattingEdits create doc (Some opt)
     = provideFormattingEdits create doc (Some (effectiveOptions opt))
   \<and> provideFormattingEdits create doc None
     = provideFormattingEdits create doc (Some defaultOptions)
   \<and> withDocumentedDefaults defaultOptions = defaultOptions
   \<and> tabSize (effectiveOptions opt) = tabSize (withDocumentedDefaults opt)
   \<and> insertSpaces (effectiveOptions opt) = insertSpaces (withDocumentedDefaults opt)
   \<and> trimTrailingWhitespace (effectiveOptions opt)
       = trimTrailingWhitespace (withDocumentedDefaults opt)
   \<and> normalizeEOL (effectiveOptions opt) = normalizeEOL (withDocumentedDefaults opt)
   \<and> maxConsecutiveBlankLines (effectiveOptions opt)
       = maxConsecutiveBlankLines (withDocumentedDefaults opt)
   \<and> braceStyle (effectiveOptions opt) = braceStyle (withDocumentedDefaults opt)
   \<and> effectiveOptions onlyIndentOptions =
       onlyIndentOptions \<lparr>
         trimTrailingWhitespace := Some True, normalizeEOL := Some LF,
         maxConsecutiveBlankLines := Some 2, braceStyle := Some Attach,
         insertFinalNewline := Some False, trimFinalNewlines := Some False,
         ensureSpaceAroundOperators := Some False, spaceAfterComma := Some False,
         spaceAroundColon := Some ColonNone, normalizeQuotes := Some QuotePreserve,
         alignInlineComments := Some False, alignEquals := Some False,
         newlineBeforeElse := Some False, wrapCommentsAt := Some 0 \<rparr>"
proof -
  have a: "provideFormattingEdits create doc (Some opt)
           = provideFormattingEdits create doc (Some (effectiveOptions opt))"
    by (simp add: provideFormattingEdits_def orElse_def formattedText_effective Let_def
        normalizedOriginal_effective cong: sum.case_cong)
  have b: "provideFormattingEdits create doc None
           = provideFormattingEdits create doc (Some defaultOptions)"
    by (simp add: provideFormattingEdits_def orElse_def)
  have c: "withDocumentedDefaults defaultOptions = defaultOptions"
    by (simp add: withDocumentedDefaults_def defaultOptions_def orDefault_def)
  have d: "tabSize (effectiveOptions opt) = tabSize (withDocumentedDefaults opt)"
    "insertSpaces (effectiveOptions opt) = insertSpaces (withDocumentedDefaults opt)"
    "trimTrailingWhitespace (effectiveOptions opt)
       = trimTrailingWhitespace (withDocumentedDefaults opt)"
    "normalizeEOL (effectiveOptions opt) = normalizeEOL (withDocumentedDefaults opt)"
    "maxConsecutiveBlankLines (effectiveOptions opt)
       = maxConsecutiveBlankLines (withDocumentedDefaults opt)"
    "braceStyle (effectiveOptions opt) = braceStyle (withDocumentedDefaults opt)"
    by (simp_all add: effectiveOptions_def withDocumentedDefaults_def orDefault_def orElse_def
        split: option.splits)
  have e: "effectiveOptions onlyIndentOptions =
       onlyIndentOptions \<lparr>
         trimTrailingWhitespace := Some True, normalizeEOL := Some LF,
         maxConsecutiveBlankLines := Some 2, braceStyle := Some Attach,
         insertFinalNewline := Some False, trimFinalNewlines := Some False,
         ensureSpaceAroundOperators := Some False, spaceAfterComma := Some False,
         spaceAroundColon := Some ColonNone, normalizeQuotes := Some QuotePreserve,
         alignInlineComments := Some False, alignEquals := Some False,
         newlineBeforeElse := Some False, wrapCommentsAt := Some 0 \<rparr>"
    by (simp add: effectiveOptions_def onlyIndentOptions_def orElse_def truthy_def)
  from a b c d e show ?thesis by blast
qed

text \<open>
  The claim as the specification states it fails for the options value that has a tab
  size and the choice of spaces only: the code returns no edit for \<open>a=1\<close>, and with the
  documented defaults filled in it returns the edit to \<open>a = 1\<close> and a final newline
  (or, with the checked \<open>Range.create\<close>, raises on the way to that edit).
\<close>

theorem absent_options_counterexample:
  "provideFormattingEdits rangeCreateUnchecked
     \<lparr> getText = ''a=1'', lineCount = 1, getTextIn = (\<lambda>r. ''a=1'') \<rparr> (Some onlyIndentOptions)
   \<noteq> provideFormattingEdits rangeCreateUnchecked
     \<lparr> getText = ''a=1'', lineCount = 1, getTextIn = (\<lambda>r. ''a=1'') \<rparr>
     (Some (withDocumentedDefaults onlyIndentOptions))
   \<and> provideFormattingEdits rangeCreateChecked
     \<lparr> getText = ''a=1'', lineCount = 1, getTextIn = (\<lambda>r. ''a=1'') \<rparr> (Some onlyIndentOptions)
   \<noteq> provideFormattingEdits rangeCreateChecked
     \<lparr> getText = ''a=1'', lineCount = 1, getTextIn = (\<lambda>r. ''a=1'') \<rparr>
     (Some (withDocumentedDefaults onlyIndentOptions))
   \<and> formattedText ''a=1'' onlyIndentOptions = Inr ''a=1''
   \<and> formattedText ''a=1'' (withDocumentedDefaults onlyIndentOptions) = Inr ''a = 1\<newline>''"
  by (simp add: eval_simps onlyIndentOptions_def withDocumentedDefaults_def orDefault_def)

subsection \<open>Runs on concrete documents\<close>

lemma edit_path_never_empty:
  "formattedText (getText doc) (orElse options defaultOptions) = Inr final \<Longrightarrow>
   normalizedOriginal (getText doc) (orElse options defaultOptions) \<noteq> final \<Longrightarrow>
   provideFormattingEdits create doc options \<noteq> Inr []"
  by (simp add: provideFormattingEdits_def Let_def split: sum.splits)

text \<open>
  Claim C1 at the text \<open>a <= b\<close>, \<open>c = d\<close> with the default options. The first run
  returns an edit; the second run, on the text of that edit, returns an edit again,
  with another text. The texts do not depend on the library; the edits are those of
  the unchecked \<open>Range.create\<close>, and with no library does the second run return the
  empty list.
\<close>

theorem second_run_edits_again:
  "provideFormattingEdits rangeCreateUnchecked
     \<lparr> getText = ''a <= b\<newline>c = d'', lineCount = 2, getTextIn = (\<lambda>r. ''c = d'') \<rparr> None
   = Inr [\<lparr> editRange = \<lparr> rangeStart = \<lparr> posLine = 0, posCharacter = 0 \<rparr>,
                            rangeEnd = \<lparr> posLine = 1, posCharacter = 5 \<rparr> \<rparr>,
            newText = ''a <  = b\<newline>c  = d\<newline>'' \<rparr>]
   \<and> provideFormattingEdits rangeCreateUnchecked
     \<lparr> getText = ''a <  = b\<newline>c  = d\<newline>'', lineCount = 3, getTextIn = (\<lambda>r. []) \<rparr> None
   = Inr [\<lparr> editRange = \<lparr> rangeStart = \<lparr> posLine = 0, posCharacter = 0 \<rparr>,
                            rangeEnd = \<lparr> posLine = 2, posCharacter = 0 \<rparr> \<rparr>,
            newText = ''a <  = b\<newline>c   = d\<newline>'' \<rparr>]
   \<and> formattedText ''a <= b\<newline>c = d'' defaultOptions = Inr ''a <  = b\<newline>c  = d\<newline>''
   \<and> formattedText ''a <  = b\<newline>c  = d\<newline>'' defaultOptions
      = Inr ''a <  = b\<newline>c   = d\<newline>''
   \<and> provideFormattingEdits create
     \<lparr> getText = ''a <  = b\<newline>c  = d\<newline>'', lineCount = 3, getTextIn = (\<lambda>r. []) \<rparr> None
     \<noteq> Inr []"
proof -
  have t1: "formattedText ''a <= b\<newline>c = d'' defaultOptions = Inr ''a <  = b\<newline>c  = d\<newline>''"
    by (simp add: eval_simps)
  have t2: "formattedText ''a <  = b\<newline>c  = d\<newline>'' defaultOptions
            = Inr ''a <  = b\<newline>c   = d\<newline>''"
    by (simp add: eval_simps)
  have n2: "normalizedOriginal ''a <  = b\<newline>c  = d\<newline>'' defaultOptions
            = ''a <  = b\<newline>c  = d\<newline>''"
    by (simp add: eval_simps)
  have e1: "provideFormattingEdits rangeCreateUnchecked
     \<lparr> getText = ''a <= b\<newline>c = d'', lineCount = 2, getTextIn = (\<lambda>r. ''c = d'') \<rparr> None
   = Inr [\<lparr> editRange = \<lparr> rangeStart = \<lparr> posLine = 0, posCharacter = 0 \<rparr>,
                            rangeEnd = \<lparr> posLine = 1, posCharacter = 5 \<rparr> \<rparr>,
            newText = ''a <  = b\<newline>c  = d\<newline>'' \<rparr>]"
    by (simp add: eval_simps)
  have e2: "provideFormattingEdits rangeCreateUnchecked
     \<lparr> getText = ''a <  = b\<newline>c  = d\<newline>'', lineCount = 3, getTextIn = (\<lambda>r. []) \<rparr> None
   = Inr [\<lparr> editRange = \<lparr> rangeStart = \<lparr> posLine = 0, posCharacter = 0 \<rparr>,
                            rangeEnd = \<lparr> posLine = 2, posCharacter = 0 \<rparr> \<rparr>,
            newText = ''a <  = b\<newline>c   = d\<newline>'' \<rparr>]"
    by (simp add: eval_simps)
  have e3: "provideFormattingEdits create
     \<lparr> getText = ''a <  = b\<newline>c  = d\<newline>'', lineCount = 3, getTextIn = (\<lambda>r. []) \<rparr> None
     \<noteq> Inr []"
    by (rule edit_path_never_empty [where final = "''a <  = b\<newline>c   = d\<newline>''"])
       (simp_all add: orElse_def t2 n2)
  from t1 t2 e1 e2 e3 show ?thesis by blast
qed

text \<open>
  Claim C2 at the lines \<open>d["a=b"] = 1\<close>, \<open>y = 2\<close> with the default options: the
  alignment of equals signs splits the first line at the \<open>=\<close> inside the literal and
  pads there. The literal of \<open>let s = "a,b:c{d}"\<close> comes out as it went in. The edits
  are those of the unchecked \<open>Range.create\<close>; the texts do not depend on the library.
\<close>

theorem alignEquals_splits_inside_string:
  \<open>alignEqualsBlocks [''d["a=b"] = 1'', ''y = 2''] = [''d["a  = b"] = 1'', ''y   = 2'']
   \<and> provideFormattingEdits rangeCreateUnchecked
     \<lparr> getText = ''d["a=b"] = 1\<newline>y = 2'', lineCount = 2, getTextIn = (\<lambda>r. ''y = 2'') \<rparr> None
   = Inr [\<lparr> editRange = \<lparr> rangeStart = \<lparr> posLine = 0, posCharacter = 0 \<rparr>,
                            rangeEnd = \<lparr> posLine = 1, posCharacter = 5 \<rparr> \<rparr>,
            newText = ''d["a  = b"] = 1\<newline>y   = 2\<newline>'' \<rparr>]
   \<and> provideFormattingEdits rangeCreateUnchecked
     \<lparr> getText = ''let s = "a,b:c{d}"'', lineCount = 1, getTextIn = (\<lambda>r. ''let s = "a,b:c{d}"'') \<rparr> None
   = Inr [\<lparr> editRange = \<lparr> rangeStart = \<lparr> posLine = 0, posCharacter = 0 \<rparr>,
                            rangeEnd = \<lparr> posLine = 0, posCharacter = 18 \<rparr> \<rparr>,
            newText = ''let s = "a,b:c{d}"\<newline>'' \<rparr>]
   \<and> formattedText ''d["a=b"] = 1\<newline>y = 2'' defaultOptions
      = Inr ''d["a  = b"] = 1\<newline>y   = 2\<newline>''
   \<and> formattedText ''let s = "a,b:c{d}"'' defaultOptions = Inr ''let s = "a,b:c{d}"\<newline>''\<close>
  by (simp add: eval_simps)

text \<open>
  Claim C3 at the line \<open>a = 1 // x,y\<close> with the default options: the operator pass
  separates the two slashes of the comment marker and the comma pass puts a space
  after the comma of the comment. The edit is that of the unchecked \<open>Range.create\<close>;
  the text does not depend on the library.
\<close>

theorem spacing_rewrites_comment:
  "ensureSpacesAroundOpsOutsideStrings ''a = 1 // x,y'' = ''a = 1 / / x,y''
   \<and> ensureSpaceAfterCommasOutsideStrings ''a = 1 / / x,y'' = ''a = 1 / / x, y''
   \<and> splitCodeAndComment ''a = 1 // x,y'' = (''a = 1 '', ''// x,y'')
   \<and> provideFormattingEdits rangeCreateUnchecked
     \<lparr> getText = ''a = 1 // x,y'', lineCount = 1, getTextIn = (\<lambda>r. ''a = 1 // x,y'') \<rparr> None
   = Inr [\<lparr> editRange = \<lparr> rangeStart = \<lparr> posLine = 0, posCharacter = 0 \<rparr>,
                            rangeEnd = \<lparr> posLine = 0, posCharacter = 12 \<rparr> \<rparr>,
            newText = ''a = 1 / / x, y\<newline>'' \<rparr>]
   \<and> formattedText ''a = 1 // x,y'' defaultOptions = Inr ''a = 1 / / x, y\<newline>''"
  by (simp add: eval_simps)

text \<open>
  Claim C5 at the lines \<open>x = 1\<close>, \<open>longname = 2\<close>: the widest line gets two spaces
  before its equals sign, so the equals signs are in columns 9 and 10. With a blank
  line between them the two lines are left as they are.
\<close>

theorem alignEquals_widest_line_off_by_one:
  "alignEqualsBlocks [''x = 1'', ''longname = 2''] = [''x        = 1'', ''longname  = 2'']
   \<and> alignEqualsBlocks [''x = 1'', '''', ''longname = 2''] = [''x = 1'', '''', ''longname = 2'']
   \<and> formattedText ''x = 1\<newline>longname = 2'' defaultOptions
       = Inr ''x        = 1\<newline>longname  = 2\<newline>''"
  by (simp add: eval_simps)

section \<open>The blank-run limiter\<close>







text \<open>
  Claim C10. Every blank line that the limiter keeps is the empty string: the limiter
  pushes \<open>""\<close>, not the line it read, so no line of its result is white space only and
  non-empty. The pass does not read \<open>trimTrailingWhitespace\<close>.
\<close>

theorem limitBlankRuns_blank_is_empty:
  "l \<in> set (limitBlankRuns ls maxBlank) \<Longrightarrow> isBlank l \<Longrightarrow> l = []"
proof -
  have "l \<in> set (limitBlankRunsLoop maxBlank run ls) \<Longrightarrow> isBlank l \<Longrightarrow> l = []" for run
    by (induction ls arbitrary: run) (auto split: if_splits)
  then show "l \<in> set (limitBlankRuns ls maxBlank) \<Longrightarrow> isBlank l \<Longrightarrow> l = []"
    by (simp add: limitBlankRuns_def)
qed

theorem limitBlankRuns_blank_is_empty_witness:
  "[] \<in> set (limitBlankRuns [''x'', [CHR '' '', tabch], ''y''] 2) \<and> isBlank [] \<and>
   limitBlankRuns [''x'', [CHR '' '', tabch], ''y''] 2 = [''x'', [], ''y''] \<and>
   formattedText ''{\<newline> \<newline>}''
     (defaultOptions \<lparr> trimTrailingWhitespace := Some False \<rparr>)
     = Inr ''{\<newline>\<newline>}\<newline>''"
proof -
  have whole: "formattedText ''{\<newline> \<newline>}''
     (defaultOptions \<lparr> trimTrailingWhitespace := Some False \<rparr>)
     = Inr ''{\<newline>\<newline>}\<newline>''"
    by (simp add: eval_simps)
  have run: "limitBlankRuns [''x'', [CHR '' '', tabch], ''y''] 2 = [''x'', [], ''y'']"
    by (simp add: limitBlankRuns_def isBlank_def isSpace_def)
  have h1: "[] \<in> set (limitBlankRuns [''x'', [CHR '' '', tabch], ''y''] 2)"
    by (simp add: run)
  have h2: "isBlank []"
    by (simp add: isBlank_def)
  from limitBlankRuns_blank_is_empty [OF h1 h2] h1 h2 run whole show ?thesis by simp
qed

section \<open>Quote normalisation of string literals\<close>

lemma rewriteStringsFrom_code:
  "list_all (\<lambda>c. \<not> isQuote c) pre \<Longrightarrow>
   rewriteStringsFrom fn None (pre @ rest) = pre @ rewriteStringsFrom fn None rest"
  by (induction pre) simp_all

lemma rewriteStringsFrom_literal:
  "closedContent q content \<Longrightarrow> q \<noteq> backslash \<Longrightarrow>
   rewriteStringsFrom fn (Some (q, acc)) (content @ q # post) =
     fn (acc @ content) q @ rewriteStringsFrom fn None post"
proof (induction q content arbitrary: acc rule: closedContent.induct)
  case (1 q)
  then show ?case by simp
next
  case (2 q c s)
  show ?case
  proof (cases "c = backslash")
    case True
    with "2.prems" obtain c2 s' where s: "s = c2 # s'" and cl: "closedContent q s'"
      by (auto split: list.splits)
    from "2.IH"(1) [OF True s cl "2.prems"(2), of "acc @ [c, c2]"] True s show ?thesis by simp
  next
    case False
    with "2.prems" have ne: "c \<noteq> q" and cl: "closedContent q s" by simp_all
    from "2.IH"(2) [OF False cl "2.prems"(2), of "acc @ [c]"] False ne show ?thesis by simp
  qed
qed

lemma escapeQuote_absent: "q \<notin> set content \<Longrightarrow> escapeQuote q content = content"
  by (induction content) (auto simp: escapeQuote_def)

lemma rewriteStrings_first_literal:
  assumes "list_all (\<lambda>c. \<not> isQuote c) pre" and "isQuote q" and "closedContent q content"
  shows "rewriteStrings (pre @ q # content @ q # post) fn =
           pre @ fn content q @ rewriteStrings post fn"
proof -
  from assms(2) have nb: "q \<noteq> backslash" by (auto simp: isQuote_def)
  from rewriteStringsFrom_code [OF assms(1), of fn "q # content @ q # post"]
    rewriteStringsFrom_literal [OF assms(3) nb, of fn "[]" post] assms(2)
  show ?thesis by (simp add: rewriteStrings_def)
qed

text \<open>
  Claim C9. On a line, take the first literal: the text \<open>pre\<close> before it has no quote
  and its content is closed by its own quote. With the target \<open>double\<close> a single-quoted
  literal whose content has no double quote comes out double-quoted with the same
  content, character for character, and one whose content has a double quote comes
  out unchanged; with the target \<open>single\<close> the same holds with the quotes exchanged. A
  literal that already has the target quote is unchanged. The rest of the line is
  normalised in the same way, so the statement reaches every literal of the line.
\<close>

theorem normalizeQuotesInLine_literals:
  assumes "list_all (\<lambda>c. \<not> isQuote c) pre"
    and "closedContent squote single"
    and "closedContent dquote double"
  shows "normalizeQuotesInLine (pre @ squote # single @ squote # post) QuoteDouble =
           pre @ (if dquote \<in> set single then squote # single @ [squote]
                  else dquote # single @ [dquote])
           @ normalizeQuotesInLine post QuoteDouble
       \<and> normalizeQuotesInLine (pre @ dquote # double @ dquote # post) QuoteSingle =
           pre @ (if squote \<in> set double then dquote # double @ [dquote]
                  else squote # double @ [squote])
           @ normalizeQuotesInLine post QuoteSingle
       \<and> normalizeQuotesInLine (pre @ dquote # double @ dquote # post) QuoteDouble =
           pre @ dquote # double @ [dquote] @ normalizeQuotesInLine post QuoteDouble
       \<and> normalizeQuotesInLine (pre @ squote # single @ squote # post) QuoteSingle =
           pre @ squote # single @ [squote] @ normalizeQuotesInLine post QuoteSingle"
  using rewriteStrings_first_literal [OF assms(1) _ assms(2), where fn = "normalizeQuote QuoteDouble" and post = post]
    rewriteStrings_first_literal [OF assms(1) _ assms(3), where fn = "normalizeQuote QuoteSingle" and post = post]
    rewriteStrings_first_literal [OF assms(1) _ assms(3), where fn = "normalizeQuote QuoteDouble" and post = post]
    rewriteStrings_first_literal [OF assms(1) _ assms(2), where fn = "normalizeQuote QuoteSingle" and post = post]
  by (simp add: normalizeQuotesInLine_def normalizeQuote_def includesChar_def isQuote_def
      escapeQuote_absent)

theorem normalizeQuotesInLine_literals_witness:
  \<open>list_all (\<lambda>c. \<not> isQuote c) ''x = '' \<and> closedContent squote ''hi'' \<and> closedContent dquote ''it's''
   \<and> normalizeQuotesInLine (''x = '' @ squote # ''hi'' @ squote # '' + 'she said "hi"' + y'') QuoteDouble
       = ''x = "hi" + 'she said "hi"' + y''
   \<and> normalizeQuotesInLine (''x = '' @ dquote # ''it's'' @ dquote # '';'') QuoteSingle
       = ''x = "it's";''\<close>
proof -
  have h1: "list_all (\<lambda>c. \<not> isQuote c) ''x = ''" by (simp add: isQuote_def)
  have h2: "closedContent squote ''hi''" by simp
  have h3: \<open>closedContent dquote ''it's''\<close> by simp
  have r1: \<open>normalizeQuotesInLine '' + 'she said "hi"' + y'' QuoteDouble = '' + 'she said "hi"' + y''\<close>
    by (simp add: eval_simps)
  have r2: \<open>normalizeQuotesInLine '';'' QuoteSingle = '';''\<close>
    by (simp add: eval_simps)
  from normalizeQuotesInLine_literals [OF h1 h2 h3, of \<open>'' + 'she said "hi"' + y''\<close>]
    normalizeQuotesInLine_literals [OF h1 h2 h3, of \<open>'';''\<close>] h1 h2 h3 r1 r2
  show ?thesis by simp
qed

section \<open>The bracket-depth counter\<close>

lemma passIndentAndSpacingLoop_closed_form:
  "passIndentAndSpacingLoop opt indentUnit tabSz lvl acc src = Inr res \<Longrightarrow>
   length res = length acc + length src \<and> take (length acc) res = acc \<and>
   (\<forall>k raw. k < length src \<longrightarrow>
      normalizeIndent (src ! k) indentUnit tabSz (orElse (insertSpaces opt) True) = Inr raw \<longrightarrow>
      res ! (length acc + k) =
        rewriteIndented opt (take (length acc + k) res)
          (repeat indentUnit
             (nat (max 0 (lvl + bracketDepth indentUnit tabSz opt (take k src)
                          - (if startsWithClosingBracket raw then 1 else 0))))
           @ trimStartSpTab raw))"
proof (induction src arbitrary: lvl acc)
  case Nil
  then show ?case by simp
next
  case (Cons raw0 src)
  from Cons.prems obtain raw1 where
    n: "normalizeIndent raw0 indentUnit tabSz (orElse (insertSpaces opt) True) = Inr raw1"
    by (cases "normalizeIndent raw0 indentUnit tabSz (orElse (insertSpaces opt) True)") auto
  define line where "line = rewriteIndented opt acc
     (applyIndentHeuristic raw1
        (max 0 (lvl - (if startsWithClosingBracket raw1 then 1 else 0))) indentUnit)"
  from Cons.prems n have run:
    "passIndentAndSpacingLoop opt indentUnit tabSz (lvl + netBracketDelta raw1) (acc @ [line]) src
       = Inr res"
    by (simp add: line_def Let_def)
  note ih = Cons.IH [OF run]
  from ih have len: "length res = length acc + length (raw0 # src)" by simp
  from ih have tk: "take (Suc (length acc)) res = acc @ [line]" by simp
  then have tk0: "take (length acc) res = acc"
    by (metis append_eq_conv_conj butlast_snoc butlast_take diff_Suc_1 length_append_singleton
        take_all_iff linorder_le_cases)
  from tk len have at0: "res ! length acc = line"
    by (metis append_eq_conv_conj hd_drop_conv_nth le_add1 length_Cons lessI list.sel(1)
        nth_append_length nth_take)
  have d0: "lineDelta indentUnit tabSz opt raw0 = netBracketDelta raw1"
    by (simp add: lineDelta_def n)
  have "res ! (length acc + k) =
        rewriteIndented opt (take (length acc + k) res)
          (repeat indentUnit
             (nat (max 0 (lvl + bracketDepth indentUnit tabSz opt (take k (raw0 # src))
                          - (if startsWithClosingBracket raw then 1 else 0))))
           @ trimStartSpTab raw)"
    if k: "k < length (raw0 # src)"
      and r: "normalizeIndent ((raw0 # src) ! k) indentUnit tabSz (orElse (insertSpaces opt) True)
              = Inr raw"
    for k raw
  proof (cases k)
    case 0
    with r n have "raw = raw1" by simp
    with 0 at0 tk0 show ?thesis
      by (simp add: line_def applyIndentHeuristic_def bracketDepth_def)
  next
    case (Suc k')
    with k r have k': "k' < length src"
      and r': "normalizeIndent (src ! k') indentUnit tabSz (orElse (insertSpaces opt) True) = Inr raw"
      by simp_all
    from ih k' r' have
      "res ! (length (acc @ [line]) + k') =
        rewriteIndented opt (take (length (acc @ [line]) + k') res)
          (repeat indentUnit
             (nat (max 0 (lvl + netBracketDelta raw1
                          + bracketDepth indentUnit tabSz opt (take k' src)
                          - (if startsWithClosingBracket raw then 1 else 0))))
           @ trimStartSpTab raw)"
      by blast
    with Suc d0 show ?thesis
      by (simp add: bracketDepth_def add.assoc)
  qed
  with len tk0 show ?case by blast
qed

text \<open>
  The line of the result, for every options value: the indentation that
  \<open>applyIndentHeuristic\<close> computes is the indent unit repeated
  \<open>max 0 (indentLevel - preDec)\<close> times, the counter being the unclamped sum of the net
  bracket deltas of the lines before; the other steps of the pass then rewrite the
  indented line.
\<close>

lemma passIndentAndSpacing_line:
  assumes "passIndentAndSpacing src indentUnit tabSz opt = Inr res"
    and "k < length src"
    and "normalizeIndent (src ! k) indentUnit tabSz (orElse (insertSpaces opt) True) = Inr raw"
  shows "length res = length src \<and>
         res ! k =
           rewriteIndented opt (take k res)
             (repeat indentUnit
                (nat (max 0 (bracketDepth indentUnit tabSz opt (take k src)
                             - (if startsWithClosingBracket raw then 1 else 0))))
              @ trimStartSpTab raw)"
  using passIndentAndSpacingLoop_closed_form [of opt indentUnit tabSz 0 "[]" src res] assms
  by (simp add: passIndentAndSpacing_def)

text \<open>
  The net bracket delta counts the brackets outside string literals, and the
  pre-decrement looks at the first character after the blanks and tabs.
\<close>

lemma stripStringsFrom_code:
  "list_all (\<lambda>c. \<not> isQuote c) pre \<Longrightarrow>
   stripStringsFrom None (pre @ rest) = pre @ stripStringsFrom None rest"
  by (induction pre) simp_all

lemma stripStringsFrom_literal:
  "closedContent q content \<Longrightarrow> q \<noteq> backslash \<Longrightarrow>
   stripStringsFrom (Some q) (content @ q # post) = stripStringsFrom None post"
proof (induction q content rule: closedContent.induct)
  case (1 q)
  then show ?case by simp
next
  case (2 q c s)
  show ?case
  proof (cases "c = backslash")
    case True
    with "2.prems" obtain c2 s' where s: "s = c2 # s'" and cl: "closedContent q s'"
      by (auto split: list.splits)
    from "2.IH"(1) [OF True s cl "2.prems"(2)] True s show ?thesis by simp
  next
    case False
    with "2.prems" have ne: "c \<noteq> q" and cl: "closedContent q s" by simp_all
    from "2.IH"(2) [OF False cl "2.prems"(2)] False ne show ?thesis by simp
  qed
qed

lemma netBracketDelta_skips_literal:
  assumes "list_all (\<lambda>c. \<not> isQuote c) pre" and "isQuote q" and "closedContent q content"
  shows "netBracketDelta (pre @ q # content @ q # post) =
           int (length (filter isOpenBracket pre)) - int (length (filter isCloseBracket pre))
           + netBracketDelta post"
proof -
  from assms(2) have nb: "q \<noteq> backslash" by (auto simp: isQuote_def)
  have "stripStrings (pre @ q # content @ q # post) = pre @ stripStrings post"
    using stripStringsFrom_code [OF assms(1), of "q # content @ q # post"]
      stripStringsFrom_literal [OF assms(3) nb, of post] assms(2)
    by (simp add: stripStrings_def)
  then show ?thesis by (simp add: netBracketDelta_def Let_def)
qed

lemma netBracketDelta_code:
  assumes "list_all (\<lambda>c. \<not> isQuote c) line"
  shows "netBracketDelta line =
           int (length (filter isOpenBracket line)) - int (length (filter isCloseBracket line))"
  using stripStringsFrom_code [OF assms, of "[]"]
  by (simp add: netBracketDelta_def stripStrings_def Let_def)

lemma startsWithClosingBracket_first_char:
  "list_all isSpTab ws \<Longrightarrow> \<not> isSpTab c \<Longrightarrow>
   startsWithClosingBracket (ws @ c # rest) = (c = CHR ''}'' \<or> c = CHR '']'' \<or> c = CHR '')'')"
  by (induction ws) (simp_all add: startsWithClosingBracket_def trimStartSpTab_def isCloseBracket_def)

lemma startsWithClosingBracket_blank:
  "list_all isSpTab ws \<Longrightarrow> startsWithClosingBracket ws = False"
  by (induction ws) (simp_all add: startsWithClosingBracket_def trimStartSpTab_def)

text \<open>
  Claim C7 at the lines \<open>{\<close>, \<open>{\<close>, \<open>x\<close>, \<open>}\<close>, \<open>}\<close> with the default options (two spaces
  for a level). The counter is 2 at the line \<open>x\<close>, and \<open>applyIndentHeuristic\<close> puts four
  spaces before it; the operator pass, which replaces every run of two spaces or more
  in a code segment by one space, then leaves one space. So the lines of depth 1 and
  of depth 2 both come out with one space. With operator spacing off the lines keep the
  indentation that was computed. The counter itself behaves as the claim says: in the
  run on \<open>}\<close>, \<open>{\<close>, \<open>{\<close>, \<open>x\<close> it is -1 after the first line, no line before \<open>x\<close> is
  indented, and \<open>x\<close> is at level 1. Brackets inside a literal do not count, and the
  pre-decrement is that of a line whose first character after blanks and tabs closes
  a bracket.
\<close>

theorem computed_indent_collapsed_by_operator_pass:
  \<open>passIndentAndSpacing [''{'', ''{'', ''x'', ''}'', ''}''] ''  '' 2 defaultOptions
     = Inr [''{'', '' {'', '' x'', '' }'', ''}'']
   \<and> formattedText ''{\<newline>{\<newline>x\<newline>}\<newline>}'' defaultOptions
     = Inr ''{\<newline> {\<newline> x\<newline> }\<newline>}\<newline>''
   \<and> applyIndentHeuristic ''x'' (max 0 (2 - 0)) ''  '' = ''    x''
   \<and> ensureSpacesAroundOpsOutsideStrings ''    x'' = '' x''
   \<and> passIndentAndSpacing [''{'', ''{'', ''x'', ''}'', ''}''] ''  '' 2
       (defaultOptions \<lparr> ensureSpaceAroundOperators := Some False \<rparr>)
     = Inr [''{'', ''  {'', ''    x'', ''  }'', ''}'']
   \<and> passIndentAndSpacing [''}'', ''{'', ''{'', ''x''] ''  '' 2 emptyOptions
     = Inr [''}'', ''{'', ''{'', ''  x'']
   \<and> bracketDepth ''  '' 2 emptyOptions [''}''] = - 1
   \<and> bracketDepth ''  '' 2 emptyOptions [''}'', ''{'', ''{''] = 1
   \<and> netBracketDelta ''f("{[", x)'' = 0
   \<and> netBracketDelta ''}'' = - 1
   \<and> startsWithClosingBracket ''  ) {'' = True
   \<and> startsWithClosingBracket ''x)'' = False\<close>
  by (simp add: depth_simps)

end
